theory Spec2Isabelle
  imports Main "HOL-Library.Sublist"
begin

section \<open>Python values, exceptions and sequences\<close>

text \<open>
  The class \<^verbatim>\<open>CSVToLaTeX\<close> of \<^verbatim>\<open>CSVToLatex.py\<close> is embedded method by method.
  Python strings are \<^typ>\<open>string\<close>, Python integers are \<^typ>\<open>int\<close>. A method
  that mutates \<^verbatim>\<open>self\<close> takes the object and returns it updated, together with the
  exception it raised, if any: a Python exception does not undo the assignments made
  before it.
\<close>

datatype error =
  ValueError | IndexError | TypeError | KeyError | StopIteration | AttributeError | OSError

text \<open>
  The argument of \<^verbatim>\<open>set_column_lines\<close> is a list on whose element type the code
  dispatches (\<^verbatim>\<open>type(lines[0]) is int\<close>), so its elements are tagged values.
\<close>

datatype pyval = PInt int | PStr string

text \<open>
  Subscripting \<^verbatim>\<open>xs[i]\<close>: indices from \<^verbatim>\<open>-len(xs)\<close> to \<^verbatim>\<open>len(xs) - 1\<close> are
  accepted, the negative ones counting from the end; \<open>None\<close> stands for IndexError.
\<close>

definition py_index :: "'a list \<Rightarrow> int \<Rightarrow> nat option" where
  "py_index xs i =
     (if 0 \<le> i \<and> i < int (length xs) then Some (nat i)
      else if i < 0 \<and> - int (length xs) \<le> i then Some (nat (int (length xs) + i))
      else None)"

definition py_get :: "'a list \<Rightarrow> int \<Rightarrow> 'a option" where
  "py_get xs i = (case py_index xs i of None \<Rightarrow> None | Some k \<Rightarrow> Some (xs ! k))"

definition py_set :: "'a list \<Rightarrow> int \<Rightarrow> 'a \<Rightarrow> 'a list option" where
  "py_set xs i v = (case py_index xs i of None \<Rightarrow> None | Some k \<Rightarrow> Some (xs[k := v]))"

text \<open>\<^verbatim>\<open>range(n)\<close> is empty for \<open>n \<le> 0\<close>, and so is \<^verbatim>\<open>[x] * n\<close>.\<close>

definition py_range :: "int \<Rightarrow> int list" where
  "py_range n = map int [0 ..< nat n]"

definition py_repeat :: "'a \<Rightarrow> int \<Rightarrow> 'a list" where
  "py_repeat x n = replicate (nat n) x"

text \<open>\<^verbatim>\<open>sep.join(xs)\<close>.\<close>

fun join :: "string \<Rightarrow> string list \<Rightarrow> string" where
  "join sep [] = []"
| "join sep [x] = x"
| "join sep (x # y # ys) = x @ sep @ join sep (y # ys)"

section \<open>The object\<close>

text \<open>
  A formatter is a Python callable applied to a cell; it returns the text of the cell
  or raises. The default formatter is the builtin \<^verbatim>\<open>str\<close>, which returns a string
  unchanged.
\<close>

type_synonym formatter = "string \<Rightarrow> error + string"

definition str :: formatter where
  "str s = Inr s"

text \<open>\<^verbatim>\<open>self.columns\<close> is \<^verbatim>\<open>None\<close>, a string or a list of strings.\<close>

datatype columns = ColStr string | ColList "string list"

text \<open>The value stored under \<^verbatim>\<open>"rlines"\<close> is a string or a list of row indices.\<close>

datatype rlines = RStr string | RList "int list"

text \<open>
  \<^verbatim>\<open>self.keys\<close> is a dictionary that only ever holds the keys \<^verbatim>\<open>"bold"\<close>,
  \<^verbatim>\<open>"clines"\<close> and \<^verbatim>\<open>"rlines"\<close>, each with values of its own type; \<open>None\<close> is an
  absent key.
\<close>

record keys =
  bold :: "bool option"
  clines :: "pyval list option"
  rlines :: "rlines option"

text \<open>
  The instance attributes assigned by \<^verbatim>\<open>__init__\<close>. \<open>reader\<close> is the csv reader,
  held as the rows it has not yielded yet. The file handle is left out.
\<close>

record obj =
  reader :: "string list list"
  headers :: "string list option"
  include_headers :: bool
  ncols :: int
  columns :: "columns option"
  keys :: keys
  formatters :: "formatter list"

section \<open>Construction\<close>

text \<open>
  Lines 41 to 44: \<^verbatim>\<open>if(self.headers[0][0]=="#"): self.headers[0] = self.headers[0][1:]\<close>
  inside \<^verbatim>\<open>try\<close> ... \<^verbatim>\<open>except: pass\<close>. Either subscript may raise IndexError, which
  the handler swallows.
\<close>

definition strip_comment :: "string list \<Rightarrow> string list" where
  "strip_comment hs =
     (case py_get hs 0 of
        None \<Rightarrow> hs
      | Some h0 \<Rightarrow>
          (case py_get h0 0 of
             None \<Rightarrow> hs
           | Some c \<Rightarrow> if c = CHR ''#'' then hs[0 := drop 1 h0] else hs))"

text \<open>
  \<^verbatim>\<open>__init__(fname, ncols, header)\<close>, with the rows of the csv file in place of the
  file name. \<^verbatim>\<open>next(self.reader)\<close> raises StopIteration on an empty file.
\<close>

definition init :: "string list list \<Rightarrow> int option \<Rightarrow> bool \<Rightarrow> error + obj" where
  "init rows ncols_arg header =
     (if ncols_arg = None \<and> header = False then Inl ValueError
      else if header then
        (case rows of
           [] \<Rightarrow> Inl StopIteration
         | first # rest \<Rightarrow>
             (let hs = strip_comment first; n = int (length hs) in
              if ncols_arg \<noteq> None \<and> Some n \<noteq> ncols_arg then Inl ValueError
              else Inr \<lparr>reader = rest, headers = Some hs, include_headers = True,
                        ncols = n, columns = None,
                        keys = \<lparr>bold = None, clines = None, rlines = None\<rparr>,
                        formatters = py_repeat str n\<rparr>))
      else
        (case ncols_arg of
           None \<Rightarrow> Inl ValueError
         | Some n \<Rightarrow>
             Inr \<lparr>reader = rows, headers = None, include_headers = False,
                  ncols = n, columns = None,
                  keys = \<lparr>bold = None, clines = None, rlines = None\<rparr>,
                  formatters = py_repeat str n\<rparr>))"

section \<open>Setters\<close>

text \<open>\<^verbatim>\<open>set_headers(headers, bold)\<close>, lines 85 to 90.\<close>

definition set_headers :: "obj \<Rightarrow> string list \<Rightarrow> bool \<Rightarrow> error option \<times> obj" where
  "set_headers self hs b =
     (if int (length hs) = ncols self
      then (None, self\<lparr>headers := Some hs, include_headers := True,
                        keys := (keys self)\<lparr>bold := Some b\<rparr>\<rparr>)
      else (Some ValueError, self))"

text \<open>
  \<^verbatim>\<open>set_columns(columns)\<close>, lines 109 to 122. A string argument is stored, and control
  then falls through to the length check and the loop, which read the string as the
  sequence of its characters.
\<close>

definition norm_column :: "string \<Rightarrow> string" where
  "norm_column c =
     (if c = ''center'' then ''c''
      else if c = ''left'' then ''l''
      else if c = ''right'' then ''r''
      else c)"

definition elements :: "columns \<Rightarrow> string list" where
  "elements cols = (case cols of ColStr s \<Rightarrow> map (\<lambda>c. [c]) s | ColList l \<Rightarrow> l)"

definition set_columns :: "obj \<Rightarrow> columns \<Rightarrow> error option \<times> obj" where
  "set_columns self cols =
     (let self1 = (case cols of
                     ColStr s \<Rightarrow> self\<lparr>columns := Some (ColStr s)\<rparr>
                   | ColList l \<Rightarrow> self)
      in if int (length (elements cols)) \<noteq> ncols self then (Some ValueError, self1)
         else (None, self1\<lparr>columns := Some (ColList (map norm_column (elements cols)))\<rparr>))"

text \<open>
  \<^verbatim>\<open>set_column_lines(lines)\<close>, lines 136 to 147. \<open>mark_lines\<close> is the loop
  \<^verbatim>\<open>for i in lines: l[i] = "|"\<close>: a string used as a list index raises TypeError, an
  index out of range IndexError. A string other than \<^verbatim>\<open>"all"\<close> and \<^verbatim>\<open>"none"\<close> is
  accepted and changes nothing; \<^verbatim>\<open>lines[0]\<close> raises IndexError on an empty list.
\<close>

datatype lines_arg = LStr string | LList "pyval list"

fun mark_lines :: "pyval list \<Rightarrow> pyval list \<Rightarrow> error + pyval list" where
  "mark_lines l [] = Inr l"
| "mark_lines l (PInt i # rest) =
     (case py_set l i (PStr ''|'') of
        None \<Rightarrow> Inl IndexError
      | Some l' \<Rightarrow> mark_lines l' rest)"
| "mark_lines l (PStr s # rest) = Inl TypeError"

definition set_clines :: "obj \<Rightarrow> pyval list \<Rightarrow> obj" where
  "set_clines self l = self\<lparr>keys := (keys self)\<lparr>clines := Some l\<rparr>\<rparr>"

definition set_column_lines :: "obj \<Rightarrow> lines_arg \<Rightarrow> error option \<times> obj" where
  "set_column_lines self lines =
     (case lines of
        LStr s \<Rightarrow>
          if s = ''all'' then (None, set_clines self (py_repeat (PStr ''|'') (ncols self + 1)))
          else if s = ''none'' then (None, set_clines self (py_repeat (PStr []) (ncols self + 1)))
          else (None, self)
      | LList [] \<Rightarrow> (Some IndexError, self)
      | LList (PInt i # rest) \<Rightarrow>
          (case mark_lines (py_repeat (PStr []) (ncols self + 1)) (PInt i # rest) of
             Inl e \<Rightarrow> (Some e, self)
           | Inr l \<Rightarrow> (None, set_clines self l))
      | LList (PStr t # rest) \<Rightarrow> (None, set_clines self (PStr t # rest)))"

text \<open>\<^verbatim>\<open>set_column_line(idx, line)\<close>, lines 165 to 167.\<close>

definition set_column_line :: "obj \<Rightarrow> int \<Rightarrow> string \<Rightarrow> error option \<times> obj" where
  "set_column_line self idx line =
     (case (if clines (keys self) = None then set_column_lines self (LStr ''none'')
            else (None, self)) of
        (Some e, self1) \<Rightarrow> (Some e, self1)
      | (None, self1) \<Rightarrow>
          (case clines (keys self1) of
             None \<Rightarrow> (Some KeyError, self1)
           | Some l \<Rightarrow>
               (case py_set l idx (PStr line) of
                  None \<Rightarrow> (Some IndexError, self1)
                | Some l' \<Rightarrow> (None, set_clines self1 l'))))"

text \<open>\<^verbatim>\<open>set_row_lines(lines)\<close>, line 183.\<close>

definition set_row_lines :: "obj \<Rightarrow> rlines \<Rightarrow> error option \<times> obj" where
  "set_row_lines self lines = (None, self\<lparr>keys := (keys self)\<lparr>rlines := Some lines\<rparr>\<rparr>)"

text \<open>
  \<^verbatim>\<open>set_formatters(formatters)\<close>, lines 208 to 214, and
  \<^verbatim>\<open>set_formatter(idx, formatter)\<close>, line 231.
\<close>

datatype formatters_arg = FList "formatter list" | FOne formatter

definition set_formatters :: "obj \<Rightarrow> formatters_arg \<Rightarrow> error option \<times> obj" where
  "set_formatters self fs =
     (case fs of
        FList l \<Rightarrow>
          if int (length l) = ncols self then (None, self\<lparr>formatters := l\<rparr>)
          else (Some ValueError, self)
      | FOne f \<Rightarrow> (None, self\<lparr>formatters := py_repeat f (ncols self)\<rparr>))"

definition set_formatter :: "obj \<Rightarrow> int \<Rightarrow> formatter \<Rightarrow> error option \<times> obj" where
  "set_formatter self idx f =
     (case py_set (formatters self) idx f of
        None \<Rightarrow> (Some IndexError, self)
      | Some l \<Rightarrow> (None, self\<lparr>formatters := l\<rparr>))"

section \<open>Rendering\<close>

text \<open>The literal pieces of the markup; \<open>0x5C\<close> is the backslash, \<open>0x0A\<close> the newline.\<close>

definition bs :: string where
  "bs = [CHR 0x5C]"

definition nl :: string where
  "nl = [CHR 0x0A]"

definition begin_tabular :: string where
  "begin_tabular = bs @ ''begin{tabular}{''"

definition end_tabular :: string where
  "end_tabular = bs @ ''end{tabular}''"

definition hline :: string where
  "hline = bs @ ''hline'' @ nl"

definition endline :: string where
  "endline = bs @ bs @ nl"

definition textbf :: "string \<Rightarrow> string" where
  "textbf s = bs @ ''textbf{'' @ s @ ''}''"

text \<open>
  Lines 246 to 248: \<^verbatim>\<open>colstr = lines[0]\<close>, then for each \<^verbatim>\<open>i\<close> in \<^verbatim>\<open>range(ncols)\<close>
  \<^verbatim>\<open>colstr += self.columns[i] + lines[i+1]\<close>. The two subscripts are evaluated first,
  then the inner sum (a string plus an integer raises TypeError), then the sum
  with \<^verbatim>\<open>colstr\<close>.
\<close>

fun compose :: "string list \<Rightarrow> pyval list \<Rightarrow> pyval \<Rightarrow> int list \<Rightarrow> error + pyval" where
  "compose cs lines acc [] = Inr acc"
| "compose cs lines acc (i # rest) =
     (case py_get cs i of
        None \<Rightarrow> Inl IndexError
      | Some c \<Rightarrow>
          (case py_get lines (i + 1) of
             None \<Rightarrow> Inl IndexError
           | Some (PInt k) \<Rightarrow> Inl TypeError
           | Some (PStr t) \<Rightarrow>
               (case acc of
                  PInt k \<Rightarrow> Inl TypeError
                | PStr a \<Rightarrow> compose cs lines (PStr (a @ c @ t)) rest)))"

text \<open>Lines 238 to 248, on the object as line 236 leaves it.\<close>

definition colstr :: "obj \<Rightarrow> error + pyval" where
  "colstr self =
     (case columns self of
        None \<Rightarrow> Inl TypeError
      | Some (ColStr s) \<Rightarrow> Inr (PStr s)
      | Some (ColList cs) \<Rightarrow>
          (let lines = (case clines (keys self) of
                          Some l \<Rightarrow> l
                        | None \<Rightarrow> py_repeat (PStr []) (ncols self + 1))
           in case py_get lines 0 of
                None \<Rightarrow> Inl IndexError
              | Some c0 \<Rightarrow> compose cs lines c0 (py_range (ncols self))))"

text \<open>Lines 251 to 260: the flag \<^verbatim>\<open>all_lines\<close> and the list \<^verbatim>\<open>rlines\<close>.\<close>

definition resolve_rlines :: "rlines option \<Rightarrow> bool \<times> int list" where
  "resolve_rlines r =
     (case r of
        Some (RStr s) \<Rightarrow>
          if s = ''all'' then (True, [])
          else if s = ''none'' then (False, [100000000])
          else (False, [])
      | Some (RList l) \<Rightarrow> (False, l)
      | None \<Rightarrow> (False, [10000000000]))"

text \<open>
  Line 273: \<^verbatim>\<open>[self.formatters[i](row[i]) for i in range(self.ncols)]\<close>, left to
  right, stopping at the first exception.
\<close>

fun format_cells :: "formatter list \<Rightarrow> string list \<Rightarrow> int list \<Rightarrow> error + string list" where
  "format_cells fs row [] = Inr []"
| "format_cells fs row (i # rest) =
     (case py_get fs i of
        None \<Rightarrow> Inl IndexError
      | Some f \<Rightarrow>
          (case py_get row i of
             None \<Rightarrow> Inl IndexError
           | Some v \<Rightarrow>
               (case f v of
                  Inl e \<Rightarrow> Inl e
                | Inr s \<Rightarrow>
                    (case format_cells fs row rest of
                       Inl e \<Rightarrow> Inl e
                     | Inr ss \<Rightarrow> Inr (s # ss)))))"

text \<open>
  Lines 271 to 280, the loop over the rows left in the reader. It returns the exception
  raised, the rows not yet read and the text written so far. A row that fails to format
  has already been taken from the reader.
\<close>

fun write_rows ::
  "formatter list \<Rightarrow> int \<Rightarrow> bool \<Rightarrow> int list \<Rightarrow> nat \<Rightarrow> int \<Rightarrow> string list list \<Rightarrow> string
     \<Rightarrow> error option \<times> string list list \<times> string" where
  "write_rows fs n all_lines rl idx rownr [] out = (None, [], out)"
| "write_rows fs n all_lines rl idx rownr (row # rest) out =
     (case format_cells fs row (py_range n) of
        Inl e \<Rightarrow> (Some e, rest, out)
      | Inr cells \<Rightarrow>
          (let out1 = out @ join '' & '' cells @ endline in
           if all_lines then write_rows fs n all_lines rl idx (rownr + 1) rest (out1 @ hline)
           else if idx < length rl \<and> rownr = rl ! idx
             then write_rows fs n all_lines rl (idx + 1) (rownr + 1) rest (out1 @ hline)
           else write_rows fs n all_lines rl idx (rownr + 1) rest out1))"

text \<open>
  Lines 263 to 269, the header block. With the bold flag set, the wrapped headers are
  assigned to \<^verbatim>\<open>self.headers\<close>. Iterating or joining \<^verbatim>\<open>None\<close> raises TypeError.
\<close>

definition write_headers :: "obj \<Rightarrow> string \<Rightarrow> error option \<times> obj \<times> string" where
  "write_headers self out =
     (if include_headers self then
        (case headers self of
           None \<Rightarrow> (Some TypeError, self, out)
         | Some hs \<Rightarrow>
             (let self1 = (if bold (keys self) = Some True
                           then self\<lparr>headers := Some (map textbf hs)\<rparr> else self);
                  hs1 = (if bold (keys self) = Some True then map textbf hs else hs)
              in (None, self1, out @ hline @ join '' & '' hs1 @ endline @ hline)))
      else (None, self, out))"

text \<open>Lines 235 and 236: an absent column list is replaced by the default, in the object.\<close>

definition default_columns :: "obj \<Rightarrow> obj" where
  "default_columns self =
     (if columns self = None
      then self\<lparr>columns := Some (ColList (py_repeat ''c'' (ncols self)))\<rparr>
      else self)"

text \<open>
  Line 234, \<^verbatim>\<open>ofile = open(fname, 'w')\<close>. The file system is not part of the object, so
  the outcome of the call is an argument of \<^verbatim>\<open>tolatex\<close>: either the file is opened,
  empty (mode \<^verbatim>\<open>'w'\<close> truncates it), or \<^verbatim>\<open>open\<close> raises, as it does on a missing
  directory or a path that may not be written.
\<close>

datatype open_outcome = Opened | OpenRaises error

text \<open>
  \<^verbatim>\<open>tolatex(fname)\<close>, lines 234 to 285. The result is the exception raised (if any), the
  object afterwards and the text written to the output file. When \<^verbatim>\<open>open\<close> raises,
  nothing after line 234 runs: the object is as it was and no text is written.
\<close>

definition tolatex :: "obj \<Rightarrow> open_outcome \<Rightarrow> error option \<times> obj \<times> string" where
  "tolatex self ofile =
     (case ofile of
        OpenRaises e \<Rightarrow> (Some e, self, [])
      | Opened \<Rightarrow>
          (let self1 = default_columns self
           in case colstr self1 of
                Inl e \<Rightarrow> (Some e, self1, [])
              | Inr (PInt k) \<Rightarrow> (Some TypeError, self1, [])
              | Inr (PStr cstr) \<Rightarrow>
                  (let out1 = begin_tabular @ cstr @ ''}'' @ nl;
                       (all_lines, rl) = resolve_rlines (rlines (keys self1))
                   in case write_headers self1 out1 of
                        (Some e, self2, out2) \<Rightarrow> (Some e, self2, out2)
                      | (None, self2, out2) \<Rightarrow>
                          (case write_rows (formatters self2) (ncols self2) all_lines rl 0 0
                                  (reader self2) out2 of
                             (Some e, rest, out3) \<Rightarrow> (Some e, self2\<lparr>reader := rest\<rparr>, out3)
                           | (None, rest, out3) \<Rightarrow>
                               (case py_get rl (- 1) of
                                  None \<Rightarrow> (Some IndexError, self2\<lparr>reader := rest\<rparr>, out3)
                                | Some final \<Rightarrow>
                                    (None, self2\<lparr>reader := rest\<rparr>,
                                     if final = - 1 then out3 @ hline @ end_tabular
                                     else out3 @ end_tabular))))))"

section \<open>Attribute lookup\<close>

text \<open>
  Lines 57 to 62 define a function \<^verbatim>\<open>include_headers(self, val)\<close> in the class, whose
  body is \<^verbatim>\<open>self.include_headers = val\<close>.
\<close>

definition include_headers_body :: "obj \<Rightarrow> bool \<Rightarrow> error option \<times> obj" where
  "include_headers_body self val = (None, self\<lparr>include_headers := val\<rparr>)"

text \<open>
  The instance dictionary holds the names that \<^verbatim>\<open>__init__\<close> assigns on \<^verbatim>\<open>self\<close>, each
  with the kind of value it holds. \<^verbatim>\<open>include_headers\<close> is assigned on both branches
  (lines 45 and 51), always a boolean. The class dictionary holds the functions defined
  in the class body that take one boolean argument.
\<close>

datatype attr_value = ABool bool | AInt int | AOther

definition instance_dict :: "obj \<Rightarrow> (string \<times> attr_value) list" where
  "instance_dict self =
     [(''file'', AOther), (''reader'', AOther), (''headers'', AOther),
      (''include_headers'', ABool (include_headers self)), (''ncols'', AInt (ncols self)),
      (''columns'', AOther), (''keys'', AOther), (''formatters'', AOther)]"

definition class_dict :: "(string \<times> (obj \<Rightarrow> bool \<Rightarrow> error option \<times> obj)) list" where
  "class_dict = [(''include_headers'', include_headers_body)]"

text \<open>
  The call \<^verbatim>\<open>obj.name(val)\<close>. Python looks \<^verbatim>\<open>name\<close> up in the instance dictionary
  first and in the class only when the instance has no such entry (a plain function of
  the class is not a data descriptor). None of the values of the instance dictionary is
  callable, so calling one raises TypeError; a name found nowhere raises
  AttributeError.
\<close>

definition call_method :: "obj \<Rightarrow> string \<Rightarrow> bool \<Rightarrow> error option \<times> obj" where
  "call_method self name val =
     (case map_of (instance_dict self) name of
        Some v \<Rightarrow> (Some TypeError, self)
      | None \<Rightarrow>
          (case map_of class_dict name of
             Some f \<Rightarrow> f self val
           | None \<Rightarrow> (Some AttributeError, self)))"

section \<open>Objects used in the scenarios\<close>

text \<open>
  \<open>plain n rows\<close> is the object that \<^verbatim>\<open>CSVToLaTeX(fname, ncols=n)\<close> returns on a file
  with the given rows (lemma \<open>init_plain\<close> below).
\<close>

definition plain :: "int \<Rightarrow> string list list \<Rightarrow> obj" where
  "plain n rows =
     \<lparr>reader = rows, headers = None, include_headers = False, ncols = n, columns = None,
      keys = \<lparr>bold = None, clines = None, rlines = None\<rparr>, formatters = py_repeat str n\<rparr>"

section \<open>Basic facts\<close>

lemma py_get_Nil [simp]: "py_get [] i = None"
  by (simp add: py_get_def py_index_def)

lemma py_get_Cons_0 [simp]: "py_get (x # xs) 0 = Some x"
  by (simp add: py_get_def py_index_def)

lemma py_set_length: "py_set xs i v = Some ys \<Longrightarrow> length ys = length xs"
  by (auto simp: py_set_def split: option.splits)

lemma init_plain: "init rows (Some n) False = Inr (plain n rows)"
  by (simp add: init_def plain_def)

lemmas markup_defs =
  begin_tabular_def end_tabular_def hline_def endline_def textbf_def bs_def nl_def

lemmas eval_defs =
  plain_def py_repeat_def py_range_def py_get_def py_set_def py_index_def
  set_row_lines_def set_headers_def set_columns_def set_column_lines_def
  set_column_line_def set_clines_def tolatex_def default_columns_def colstr_def
  resolve_rlines_def write_headers_def str_def elements_def norm_column_def
  Let_def eval_nat_numeral upt_rec

section \<open>Construction and headers\<close>

text \<open>
  C7. With header derivation requested, the constructor takes the first row from the
  reader and stores it as the headers, with the leading \<open>#\<close> of the first header
  removed when there is one. An empty first header (and an empty first row) raises
  nothing and leaves the headers as read. The column count is the number of headers;
  an explicit \<^verbatim>\<open>ncols\<close> has to agree with it.
\<close>

theorem init_header_extraction:
  assumes "ncols_arg = None \<or> ncols_arg = Some (int (length first))"
  shows "init (first # rest) ncols_arg True =
           Inr ((plain (int (length first)) rest)
                  \<lparr>headers := Some (case first of
                                      [] \<Rightarrow> []
                                    | [] # t \<Rightarrow> [] # t
                                    | (c # cs) # t \<Rightarrow>
                                        if c = CHR ''#'' then cs # t else (c # cs) # t),
                    include_headers := True\<rparr>)"
proof -
  have strip: "strip_comment first =
      (case first of
         [] \<Rightarrow> []
       | [] # t \<Rightarrow> [] # t
       | (c # cs) # t \<Rightarrow> if c = CHR ''#'' then cs # t else (c # cs) # t)"
    by (simp add: strip_comment_def split: list.splits)
  have len: "length (strip_comment first) = length first"
    by (simp add: strip_comment_def split: option.splits)
  from assms show ?thesis
    by (auto simp: init_def Let_def len plain_def strip [symmetric])
qed

theorem init_header_extraction_witness:
  "init [[''#x'', ''y''], [''1'', ''2'']] None True =
     Inr ((plain 2 [[''1'', ''2'']])\<lparr>headers := Some [''x'', ''y''], include_headers := True\<rparr>) \<and>
   init [[[], ''y'']] (Some 2) True =
     Inr ((plain 2 [])\<lparr>headers := Some [[], ''y''], include_headers := True\<rparr>)"
  using init_header_extraction [where ncols_arg = None and first = "[''#x'', ''y'']"
      and rest = "[[''1'', ''2'']]"]
    init_header_extraction [where ncols_arg = "Some 2" and first = "[[], ''y'']"
      and rest = "[]"]
  by simp

text \<open>
  C8. \<^verbatim>\<open>set_headers\<close> raises ValueError (the configuration error) exactly when the
  number of headers differs from \<^verbatim>\<open>ncols\<close>, and then leaves the object as it was;
  otherwise it replaces the headers, records the bold flag and enables header
  rendering, touching nothing else.
\<close>

theorem set_headers_spec:
  "(int (length hs) \<noteq> ncols self \<longrightarrow> set_headers self hs b = (Some ValueError, self)) \<and>
   (int (length hs) = ncols self \<longrightarrow>
      fst (set_headers self hs b) = None \<and>
      headers (snd (set_headers self hs b)) = Some hs \<and>
      bold (keys (snd (set_headers self hs b))) = Some b \<and>
      include_headers (snd (set_headers self hs b)) = True \<and>
      snd (set_headers self hs b) =
        self\<lparr>headers := Some hs, include_headers := True,
              keys := (keys self)\<lparr>bold := Some b\<rparr>\<rparr>)"
  by (simp add: set_headers_def)

theorem set_headers_spec_witness:
  "set_headers (plain 2 []) [''A''] True = (Some ValueError, plain 2 []) \<and>
   fst (set_headers (plain 2 []) [''A'', ''B''] True) = None \<and>
   headers (snd (set_headers (plain 2 []) [''A'', ''B''] True)) = Some [''A'', ''B''] \<and>
   bold (keys (snd (set_headers (plain 2 []) [''A'', ''B''] True))) = Some True \<and>
   include_headers (snd (set_headers (plain 2 []) [''A'', ''B''] True)) = True"
  using set_headers_spec [where self = "plain 2 []" and hs = "[''A'']" and b = True]
    set_headers_spec [where self = "plain 2 []" and hs = "[''A'', ''B'']" and b = True]
  by (simp add: plain_def)

section \<open>Column alignment\<close>

text \<open>
  The list form of \<^verbatim>\<open>set_columns\<close>: a list of the wrong length raises ValueError and
  changes nothing, a list of length \<^verbatim>\<open>ncols\<close> is stored with \<^verbatim>\<open>center\<close>, \<^verbatim>\<open>left\<close>
  and \<^verbatim>\<open>right\<close> replaced by \<^verbatim>\<open>c\<close>, \<^verbatim>\<open>l\<close> and \<^verbatim>\<open>r\<close>.
\<close>

lemma set_columns_list:
  "set_columns self (ColList l) =
     (if int (length l) = ncols self
      then (None, self\<lparr>columns := Some (ColList (map norm_column l))\<rparr>)
      else (Some ValueError, self))"
  by (simp add: set_columns_def elements_def)

text \<open>
  The string form never leaves a string behind on success: the string either fails the
  length check, or is stored as the list of its characters.
\<close>

lemma set_columns_string:
  "set_columns self (ColStr s) =
     (if int (length s) = ncols self
      then (None, self\<lparr>columns := Some (ColList (map (\<lambda>c. norm_column [c]) s))\<rparr>)
      else (Some ValueError, self\<lparr>columns := Some (ColStr s)\<rparr>))"
  by (simp add: set_columns_def elements_def comp_def)

text \<open>
  C2. The specification and the docstring of \<^verbatim>\<open>set_columns\<close> have a string argument
  used verbatim as the column specification, without the vertical separators. The
  code does otherwise. With two columns, the string \<^verbatim>\<open>|c|c|\<close> is refused with
  ValueError; the string \<^verbatim>\<open>lr\<close> is accepted but stored as the list \<^verbatim>\<open>["l", "r"]\<close>,
  so that with all column lines set the table opens with the specification
  \<^verbatim>\<open>|l|r|\<close> and not \<^verbatim>\<open>lr\<close>.
\<close>

theorem set_columns_string_not_verbatim:
  "fst (set_columns (plain 2 []) (ColStr ''|c|c|'')) = Some ValueError \<and>
   fst (set_columns (plain 2 []) (ColStr ''lr'')) = None \<and>
   columns (snd (set_columns (plain 2 []) (ColStr ''lr''))) = Some (ColList [''l'', ''r'']) \<and>
   fst (tolatex (snd (set_column_lines (snd (set_columns (plain 2 []) (ColStr ''lr'')))
          (LStr ''all''))) Opened) = None \<and>
   snd (snd (tolatex (snd (set_column_lines (snd (set_columns (plain 2 []) (ColStr ''lr'')))
          (LStr ''all''))) Opened)) =
     bs @ ''begin{tabular}{|l|r|}'' @ nl @ bs @ ''end{tabular}''"
  by (simp add: eval_defs markup_defs)

section \<open>Vertical separators\<close>

lemma mark_lines_length: "mark_lines l is = Inr l' \<Longrightarrow> length l' = length l"
proof (induction l "is" arbitrary: l' rule: mark_lines.induct)
  case (1 l)
  then show ?case by simp
next
  case (2 l i rest)
  then show ?case by (auto split: option.splits dest: py_set_length)
next
  case (3 l s rest)
  then show ?case by simp
qed

text \<open>
  The branches of \<^verbatim>\<open>set_column_lines\<close> that build the list themselves, \<^verbatim>\<open>"all"\<close>,
  \<^verbatim>\<open>"none"\<close> and a list that starts with an integer position, store \<^verbatim>\<open>ncols + 1\<close>
  separators whenever they succeed (for a column count that is not negative).
\<close>

lemma set_column_lines_length:
  assumes "0 \<le> ncols self"
    and "lines = LStr ''all'' \<or> lines = LStr ''none'' \<or> (\<exists>i rest. lines = LList (PInt i # rest))"
    and "set_column_lines self lines = (None, self')"
  shows "\<exists>l. clines (keys self') = Some l \<and> int (length l) = ncols self + 1"
  using assms
  by (auto simp: set_column_lines_def set_clines_def py_repeat_def
      simp del: mark_lines.simps split: sum.splits dest!: mark_lines_length)

text \<open>
  The last branch, lines 146 and 147, stores a list that starts with a token as it is
  given, whatever its length. An empty list raises IndexError on line 141.
\<close>

lemma set_column_lines_tokens:
  "set_column_lines self (LList (PStr t # ts)) = (None, set_clines self (PStr t # ts))"
  by (simp add: set_column_lines_def)

lemma set_column_lines_empty:
  "set_column_lines self (LList []) = (Some IndexError, self)"
  by (simp add: set_column_lines_def)

text \<open>
  In the list of positions, index \<^verbatim>\<open>ncols + 1\<close>, which the docstring names as the
  outermost line on the right, is out of range: with two columns the list \<^verbatim>\<open>[3]\<close>
  raises IndexError and stores nothing.
\<close>

lemma set_column_lines_beyond:
  "set_column_lines (plain 2 []) (LList [PInt 3]) = (Some IndexError, plain 2 [])"
  by (simp add: eval_defs)

text \<open>
  C5. The specification has every successful call of \<^verbatim>\<open>set_column_lines\<close> leave
  \<^verbatim>\<open>ncols + 1\<close> separators stored, and a list of tokens of any other length rejected
  when it is set, as \<^verbatim>\<open>set_headers\<close>, \<^verbatim>\<open>set_columns\<close> and \<^verbatim>\<open>set_formatters\<close> reject a
  list of the wrong length. The code does otherwise. With three columns, the list
  holding the one token \<^verbatim>\<open>|\<close> is accepted and stored, so the stored separators have
  length 1 and not 4. The error comes only in \<^verbatim>\<open>tolatex\<close>, which reads the missing
  separator on line 248 and raises IndexError with nothing written.
\<close>

theorem set_column_lines_unchecked:
  "init [] (Some 3) False = Inr (plain 3 []) \<and>
   set_column_lines (plain 3 []) (LList [PStr ''|'']) =
     (None, set_clines (plain 3 []) [PStr ''|'']) \<and>
   clines (keys (snd (set_column_lines (plain 3 []) (LList [PStr ''|''])))) = Some [PStr ''|''] \<and>
   int (length [PStr ''|'']) \<noteq> ncols (plain 3 []) + 1 \<and>
   fst (tolatex (snd (set_column_lines (plain 3 []) (LList [PStr ''|'']))) Opened) =
     Some IndexError \<and>
   snd (snd (tolatex (snd (set_column_lines (plain 3 []) (LList [PStr ''|'']))) Opened)) = []"
  by (simp add: init_plain eval_defs)

text \<open>
  For a column count that is not negative and no separators stored yet, index
  \<^verbatim>\<open>ncols + 1\<close> is out of range for \<^verbatim>\<open>set_column_line\<close>.
\<close>

lemma set_column_line_beyond:
  assumes "0 \<le> ncols self" and "clines (keys self) = None"
  shows "fst (set_column_line self (ncols self + 1) line) = Some IndexError"
  using assms
  by (simp add: set_column_line_def set_column_lines_def set_clines_def py_repeat_def
      py_set_def py_index_def)

text \<open>
  C6. The specification and the docstring of \<^verbatim>\<open>set_column_line\<close> have index 0
  address the leftmost separator and both \<open>-1\<close> and \<^verbatim>\<open>ncols + 1\<close> the rightmost one.
  On a fresh object with two columns, \<^verbatim>\<open>set_column_line\<close> first stores three empty
  separators. Index 0 then sets the leftmost one, and \<open>-1\<close> and 2 the rightmost one,
  each leaving the other positions empty. Index 3, which is \<^verbatim>\<open>ncols + 1\<close>, raises
  IndexError and sets no position.
\<close>

theorem set_column_line_indices:
  "set_column_line (plain 2 []) 0 ''|'' =
     (None, set_clines (plain 2 []) [PStr ''|'', PStr [], PStr []]) \<and>
   set_column_line (plain 2 []) (- 1) ''|'' =
     (None, set_clines (plain 2 []) [PStr [], PStr [], PStr ''|'']) \<and>
   set_column_line (plain 2 []) 2 ''|'' =
     (None, set_clines (plain 2 []) [PStr [], PStr [], PStr ''|'']) \<and>
   set_column_line (plain 2 []) 3 ''|'' =
     (Some IndexError, set_clines (plain 2 []) [PStr [], PStr [], PStr []])"
  by (simp add: eval_defs)

section \<open>Properties of rendering\<close>

lemma write_headers_frame:
  assumes "write_headers self out = (e, self', out')"
  shows "ncols self' = ncols self" "keys self' = keys self" "formatters self' = formatters self"
    "include_headers self' = include_headers self" "columns self' = columns self"
    "reader self' = reader self"
    "\<not> (include_headers self \<and> bold (keys self) = Some True) \<Longrightarrow> headers self' = headers self"
  using assms by (auto simp: write_headers_def Let_def split: if_splits option.splits)

lemma default_columns_frame:
  "ncols (default_columns self) = ncols self" "keys (default_columns self) = keys self"
  "formatters (default_columns self) = formatters self"
  "include_headers (default_columns self) = include_headers self"
  "headers (default_columns self) = headers self"
  "columns self \<noteq> None \<Longrightarrow> columns (default_columns self) = columns self"
  "columns self = None \<Longrightarrow>
     columns (default_columns self) = Some (ColList (py_repeat ''c'' (ncols self)))"
  by (simp_all add: default_columns_def)

text \<open>
  The object that \<^verbatim>\<open>tolatex\<close> leaves behind is the one of line 236 when the column
  specification cannot be composed, and otherwise the one the header block returns,
  with only the reader advanced.
\<close>

lemma tolatex_cases:
  obtains (early) "fst (snd (tolatex self Opened)) = default_columns self"
  | (late) e s2 out out' rest where
      "write_headers (default_columns self) out = (e, s2, out')"
      "fst (snd (tolatex self Opened)) = s2\<lparr>reader := rest\<rparr>"
proof (cases "colstr (default_columns self)")
  case (Inl e)
  then have "fst (snd (tolatex self Opened)) = default_columns self"
    by (simp add: tolatex_def)
  then show ?thesis by (rule early)
next
  case (Inr v)
  show ?thesis
  proof (cases v)
    case (PInt k)
    with Inr have "fst (snd (tolatex self Opened)) = default_columns self"
      by (simp add: tolatex_def)
    then show ?thesis by (rule early)
  next
    case (PStr cstr)
    obtain e s2 out2 where wh:
      "write_headers (default_columns self) (begin_tabular @ cstr @ ''}'' @ nl) = (e, s2, out2)"
      by (cases "write_headers (default_columns self) (begin_tabular @ cstr @ ''}'' @ nl)")
    have "\<exists>rest. fst (snd (tolatex self Opened)) = s2\<lparr>reader := rest\<rparr>"
    proof (cases e)
      case (Some x)
      with Inr PStr wh have "fst (snd (tolatex self Opened)) = s2\<lparr>reader := reader s2\<rparr>"
        by (simp add: tolatex_def Let_def split: prod.splits)
      then show ?thesis ..
    next
      case None
      with Inr PStr wh show ?thesis
        by (auto simp add: tolatex_def Let_def split: prod.splits option.splits)
    qed
    with wh show ?thesis by (blast intro: late)
  qed
qed

text \<open>
  C9. Three columns, the rows \<^verbatim>\<open>1,2,3\<close> and \<^verbatim>\<open>4,5,6\<close>, everything else at its default
  and the row lines set to \<^verbatim>\<open>"none"\<close> (or left unset): \<^verbatim>\<open>tolatex\<close> raises nothing and
  writes the table-open line with the specification \<^verbatim>\<open>ccc\<close>, one line per row ended
  by two backslashes and a newline, and the table-close directive.
\<close>

theorem scenario_plain_table:
  "init [[''1'', ''2'', ''3''], [''4'', ''5'', ''6'']] (Some 3) False =
     Inr (plain 3 [[''1'', ''2'', ''3''], [''4'', ''5'', ''6'']]) \<and>
   fst (tolatex (snd (set_row_lines (plain 3 [[''1'', ''2'', ''3''], [''4'', ''5'', ''6'']])
          (RStr ''none''))) Opened) = None \<and>
   snd (snd (tolatex (snd (set_row_lines (plain 3 [[''1'', ''2'', ''3''], [''4'', ''5'', ''6'']])
          (RStr ''none''))) Opened)) =
     bs @ ''begin{tabular}{ccc}'' @ nl @
     ''1 & 2 & 3'' @ bs @ bs @ nl @
     ''4 & 5 & 6'' @ bs @ bs @ nl @
     bs @ ''end{tabular}'' \<and>
   snd (snd (tolatex (plain 3 [[''1'', ''2'', ''3''], [''4'', ''5'', ''6'']]) Opened)) =
     bs @ ''begin{tabular}{ccc}'' @ nl @
     ''1 & 2 & 3'' @ bs @ bs @ nl @
     ''4 & 5 & 6'' @ bs @ bs @ nl @
     bs @ ''end{tabular}''"
  by (simp add: init_plain eval_defs markup_defs)

text \<open>
  With the row lines set to \<^verbatim>\<open>"all"\<close> the list \<^verbatim>\<open>rlines\<close> stays empty, and
  \<^verbatim>\<open>rlines[-1]\<close> on line 281 raises IndexError: \<^verbatim>\<open>tolatex\<close> never completes.
\<close>

lemma tolatex_all_raises:
  assumes "rlines (keys self) = Some (RStr ''all'')"
  shows "fst (tolatex self Opened) \<noteq> None"
proof -
  have "rlines (keys (default_columns self)) = Some (RStr ''all'')"
    using assms by (simp add: default_columns_frame)
  then show ?thesis
    by (auto simp: tolatex_def Let_def resolve_rlines_def
        split: sum.splits pyval.splits prod.splits option.splits)
qed

text \<open>
  Every step of \<^verbatim>\<open>tolatex\<close> appends to the text written so far. A run that raises
  nothing has written the table-open line first and the table-close directive last.
\<close>

lemma write_rows_prefix:
  "write_rows fs n a rl idx rownr rows out = (e, rest, out') \<Longrightarrow> prefix out out'"
proof (induction rows arbitrary: a idx rownr out)
  case Nil
  then show ?case by simp
next
  case (Cons row rows)
  show ?case
  proof (cases "format_cells fs row (py_range n)")
    case (Inl x)
    with Cons.prems show ?thesis by simp
  next
    case (Inr cells)
    with Cons.prems show ?thesis
      by (auto simp: Let_def split: if_splits dest: Cons.IH [THEN append_prefixD])
  qed
qed

lemma write_headers_prefix:
  "write_headers self out = (e, self', out') \<Longrightarrow> prefix out out'"
  by (auto simp: write_headers_def Let_def split: if_splits option.splits)

lemma tolatex_completes_shape:
  assumes "tolatex self Opened = (None, self', out)"
  shows "\<exists>cstr. colstr (default_columns self) = Inr (PStr cstr) \<and>
           prefix (begin_tabular @ cstr @ ''}'' @ nl) out \<and> suffix end_tabular out"
  using assms
  by (auto simp: tolatex_def Let_def suffix_def
      split: sum.splits pyval.splits prod.splits option.splits if_splits
      dest!: write_rows_prefix write_headers_prefix
      intro: prefix_order.trans)

text \<open>
  C1. The specification has the text written begin with the table-open directive and
  end with the table-close directive for every setting of the row lines, \<^verbatim>\<open>"all"\<close>
  included, which line 255 handles. With one column, the single row \<^verbatim>\<open>x\<close> and the
  row lines set to \<^verbatim>\<open>"all"\<close>, \<^verbatim>\<open>tolatex\<close> writes the table-open line, the row and its
  separator line, and then raises IndexError: the text does not end with the
  table-close directive.
\<close>

theorem tolatex_all_unclosed:
  "init [[''x'']] (Some 1) False = Inr (plain 1 [[''x'']]) \<and>
   fst (tolatex (snd (set_row_lines (plain 1 [[''x'']]) (RStr ''all''))) Opened) = Some IndexError \<and>
   snd (snd (tolatex (snd (set_row_lines (plain 1 [[''x'']]) (RStr ''all''))) Opened)) =
     bs @ ''begin{tabular}{c}'' @ nl @ ''x'' @ bs @ bs @ nl @ bs @ ''hline'' @ nl \<and>
   \<not> suffix end_tabular
       (snd (snd (tolatex (snd (set_row_lines (plain 1 [[''x'']]) (RStr ''all''))) Opened)))"
  by (simp add: init_plain eval_defs markup_defs suffix_def)

text \<open>
  C3. The specification has two runs of \<^verbatim>\<open>tolatex\<close> on the same object, each on the
  same rows, write the same text. The code does otherwise. With the headers \<^verbatim>\<open>A\<close>,
  \<^verbatim>\<open>B\<close> set bold and the row \<^verbatim>\<open>1,2\<close>, the first run writes the header line with
  each header wrapped once and stores the wrapped headers in the object; the second
  run, on the object the first one left and the same row again, wraps them a second
  time.
\<close>

theorem tolatex_twice_differs:
  "fst (set_headers (plain 2 [[''1'', ''2'']]) [''A'', ''B''] True) = None \<and>
   snd (snd (tolatex (snd (set_headers (plain 2 [[''1'', ''2'']]) [''A'', ''B''] True)) Opened)) =
     bs @ ''begin{tabular}{cc}'' @ nl @
     bs @ ''hline'' @ nl @
     bs @ ''textbf{A} & '' @ bs @ ''textbf{B}'' @ bs @ bs @ nl @
     bs @ ''hline'' @ nl @
     ''1 & 2'' @ bs @ bs @ nl @
     bs @ ''end{tabular}'' \<and>
   snd (snd (tolatex
     ((fst (snd (tolatex (snd (set_headers (plain 2 [[''1'', ''2'']]) [''A'', ''B''] True)) Opened)))
        \<lparr>reader := [[''1'', ''2'']]\<rparr>) Opened)) =
     bs @ ''begin{tabular}{cc}'' @ nl @
     bs @ ''hline'' @ nl @
     bs @ ''textbf{'' @ bs @ ''textbf{A}} & '' @ bs @ ''textbf{'' @ bs @ ''textbf{B}}'' @ bs @ bs @ nl @
     bs @ ''hline'' @ nl @
     ''1 & 2'' @ bs @ bs @ nl @
     bs @ ''end{tabular}'' \<and>
   snd (snd (tolatex (snd (set_headers (plain 2 [[''1'', ''2'']]) [''A'', ''B''] True)) Opened)) \<noteq>
   snd (snd (tolatex
     ((fst (snd (tolatex (snd (set_headers (plain 2 [[''1'', ''2'']]) [''A'', ''B''] True)) Opened)))
        \<lparr>reader := [[''1'', ''2'']]\<rparr>) Opened))"
  by (simp add: eval_defs markup_defs)

text \<open>
  C4, as the code has it. \<^verbatim>\<open>tolatex\<close> leaves the column count, the dictionary of keys
  (column lines, row lines, bold flag), the formatters and the header switch as they
  were, whether it raises or not. A column specification that was set stays as it was.
  An unset one is replaced by the default list of \<^verbatim>\<open>ncols\<close> tokens \<^verbatim>\<open>c\<close> once the
  output file has been opened; when opening the output file raises, the whole object
  is left as it was and nothing is written. The headers stay as they were when header
  rendering is off or the bold flag is not set.
\<close>

theorem tolatex_frame:
  "ncols (fst (snd (tolatex self ofile))) = ncols self \<and>
   keys (fst (snd (tolatex self ofile))) = keys self \<and>
   formatters (fst (snd (tolatex self ofile))) = formatters self \<and>
   include_headers (fst (snd (tolatex self ofile))) = include_headers self \<and>
   (columns self \<noteq> None \<longrightarrow> columns (fst (snd (tolatex self ofile))) = columns self) \<and>
   (columns self = None \<longrightarrow>
      columns (fst (snd (tolatex self Opened))) = Some (ColList (py_repeat ''c'' (ncols self)))) \<and>
   tolatex self (OpenRaises e) = (Some e, self, []) \<and>
   (\<not> (include_headers self \<and> bold (keys self) = Some True) \<longrightarrow>
      headers (fst (snd (tolatex self ofile))) = headers self)"
proof -
  have raises: "tolatex self (OpenRaises x) = (Some x, self, [])" for x
    by (simp add: tolatex_def)
  have opened:
    "ncols (fst (snd (tolatex self Opened))) = ncols self \<and>
     keys (fst (snd (tolatex self Opened))) = keys self \<and>
     formatters (fst (snd (tolatex self Opened))) = formatters self \<and>
     include_headers (fst (snd (tolatex self Opened))) = include_headers self \<and>
     (columns self \<noteq> None \<longrightarrow> columns (fst (snd (tolatex self Opened))) = columns self) \<and>
     (columns self = None \<longrightarrow>
        columns (fst (snd (tolatex self Opened))) =
          Some (ColList (py_repeat ''c'' (ncols self)))) \<and>
     (\<not> (include_headers self \<and> bold (keys self) = Some True) \<longrightarrow>
        headers (fst (snd (tolatex self Opened))) = headers self)"
  proof (cases self rule: tolatex_cases)
    case early
    then show ?thesis by (simp add: default_columns_frame)
  next
    case (late e s2 out out' rest)
    from write_headers_frame [OF late(1)] late(2) show ?thesis
      by (simp add: default_columns_frame)
  qed
  show ?thesis
  proof (cases ofile)
    case Opened
    with opened raises show ?thesis by simp
  next
    case (OpenRaises x)
    with opened raises show ?thesis by simp
  qed
qed

theorem tolatex_frame_witness:
  "columns (fst (snd (tolatex (plain 2 [[''1'', ''2'']]) Opened))) = Some (ColList [''c'', ''c'']) \<and>
   headers (fst (snd (tolatex (plain 2 [[''1'', ''2'']]) Opened))) = None \<and>
   tolatex (plain 2 [[''1'', ''2'']]) (OpenRaises OSError) =
     (Some OSError, plain 2 [[''1'', ''2'']], []) \<and>
   columns (fst (snd (tolatex (snd (set_columns (plain 2 [[''1'', ''2'']])
       (ColList [''left'', ''right'']))) Opened)))
     = Some (ColList [''l'', ''r'']) \<and>
   headers (fst (snd (tolatex (snd (set_headers (plain 2 [[''1'', ''2'']]) [''A'', ''B''] False)) Opened)))
     = Some [''A'', ''B'']"
  using tolatex_frame [where self = "plain 2 [[''1'', ''2'']]" and ofile = Opened and e = OSError]
    tolatex_frame [where self = "snd (set_columns (plain 2 [[''1'', ''2'']])
       (ColList [''left'', ''right'']))" and ofile = Opened and e = OSError]
    tolatex_frame [where self = "snd (set_headers (plain 2 [[''1'', ''2'']]) [''A'', ''B''] False)"
       and ofile = Opened and e = OSError]
  by (simp add: plain_def set_columns_list set_headers_def norm_column_def py_repeat_def
      eval_nat_numeral)

text \<open>
  On a fresh object with two columns the column specification is unset before
  \<^verbatim>\<open>tolatex\<close> and, the output file opened, the list \<^verbatim>\<open>["c", "c"]\<close> after it.
\<close>

theorem tolatex_mutates_counterexample:
  "init [] (Some 2) False = Inr (plain 2 []) \<and>
   columns (plain 2 []) = None \<and>
   columns (fst (snd (tolatex (plain 2 []) Opened))) = Some (ColList [''c'', ''c'']) \<and>
   columns (fst (snd (tolatex (plain 2 []) Opened))) \<noteq> columns (plain 2 [])"
  by (simp add: init_plain eval_defs markup_defs)

section \<open>The shadowed method\<close>

text \<open>
  C10. On every object the constructor returns, the call \<^verbatim>\<open>obj.include_headers(val)\<close>
  finds the boolean of the instance, not the function of the class: it raises
  TypeError and leaves the object, and with it the header switch, as it was.
\<close>

theorem include_headers_not_callable:
  assumes "init rows ncols_arg header = Inr self"
  shows "call_method self ''include_headers'' val = (Some TypeError, self)"
  by (simp add: call_method_def instance_dict_def)

theorem include_headers_not_callable_witness:
  "init [[''a'', ''b'']] (Some 2) False = Inr (plain 2 [[''a'', ''b'']]) \<and>
   call_method (plain 2 [[''a'', ''b'']]) ''include_headers'' True =
     (Some TypeError, plain 2 [[''a'', ''b'']])"
  using include_headers_not_callable [OF init_plain, of 2 "[[''a'', ''b'']]" True]
  by (simp add: init_plain)

end
